theory Spec2Isabelle
  imports Main
begin

section \<open>Question answering with BERT: the notebook's inference pipeline\<close>

text \<open>
  The repository is one notebook, \<^verbatim>\<open>questions-answering-bert-walktrhough.ipynb\<close>. Its code
  cells load a tokenizer and a pretrained model, encode one (question, context) pair, run one
  forward pass and take the argmax of the two logit tensors. The tokenizer, the model and the
  tensor library are third-party; the notebook's own code is the sequence of calls and the
  data that flows between them. Loading the tokenizer and the model is outside the model:
  both are given. The outputs recorded in the notebook are kept as sample data.
\<close>

subsection \<open>Errors\<close>

text \<open>
  The notebook has no \<^verbatim>\<open>try\<close>, \<^verbatim>\<open>raise\<close> or \<^verbatim>\<open>assert\<close>. The only exceptions are those of the
  libraries it calls: the forward pass may raise (\<open>ModelError\<close>), and a reduction
  (\<^verbatim>\<open>max\<close>, \<^verbatim>\<open>argmax\<close>) over a tensor without elements raises (\<open>EmptyTensor\<close>).
\<close>

datatype error = ModelError | EmptyTensor

subsection \<open>Tensor reductions\<close>

text \<open>
  A tensor of shape \<open>[batch, n]\<close> is a list of rows. \<^verbatim>\<open>t.argmax()\<close> without a dimension
  returns the index of the maximum value of the flattened tensor; among equal maxima the
  first index is returned. The scan keeps the position \<open>best\<close> and the value \<open>m\<close> of the
  maximum seen so far, and \<open>i\<close>, the position of the next element. Scores are elements of
  a linear order (finite floating-point values under \<open><\<close>; NaN is outside the model).
\<close>

fun argmax_scan :: "nat \<Rightarrow> nat \<Rightarrow> 'a::linorder \<Rightarrow> 'a list \<Rightarrow> nat" where
  "argmax_scan i best m [] = best"
| "argmax_scan i best m (x # xs) =
     (if m < x then argmax_scan (Suc i) i x xs else argmax_scan (Suc i) best m xs)"

definition argmax :: "'a::linorder list list \<Rightarrow> error + nat" where
  "argmax t = (case concat t of [] \<Rightarrow> Inl EmptyTensor | x # xs \<Rightarrow> Inr (argmax_scan 1 0 x xs))"

text \<open>\<^verbatim>\<open>t.max()\<close>: the maximum value of the flattened tensor.\<close>

definition tensor_max :: "'a::linorder list list \<Rightarrow> error + 'a" where
  "tensor_max t = (case concat t of [] \<Rightarrow> Inl EmptyTensor | x # xs \<Rightarrow> Inr (fold max xs x))"

subsection \<open>The external collaborators\<close>

text \<open>
  \<^verbatim>\<open>tokenizer(question, answer_text)\<close> returns a dictionary with the three keys
  \<^verbatim>\<open>input_ids\<close>, \<^verbatim>\<open>token_type_ids\<close> and \<^verbatim>\<open>attention_mask\<close> (the recorded output of the cell that
  shows \<^verbatim>\<open>encoded_dict\<close>).
\<close>

record batch_encoding =
  input_ids :: "int list"
  token_type_ids :: "int list"
  attention_mask :: "int list"

text \<open>
  The three tokenizer entry points the notebook calls: \<^verbatim>\<open>tokenizer(q, c)\<close>,
  \<^verbatim>\<open>tokenizer.encode(q, c)\<close> and \<^verbatim>\<open>tokenizer.convert_ids_to_tokens(ids)\<close>. Their code is not
  part of the repository, so a tokenizer is a parameter of the pipeline.
\<close>

record tokenizer =
  tok_call :: "string \<Rightarrow> string \<Rightarrow> batch_encoding"
  tok_encode :: "string \<Rightarrow> string \<Rightarrow> int list"
  tok_convert_ids_to_tokens :: "int list \<Rightarrow> string list"

text \<open>\<^verbatim>\<open>output.start_logits\<close> and \<^verbatim>\<open>output.end_logits\<close>, tensors of shape \<open>[batch, n]\<close>.\<close>

record 'a qa_output =
  start_logits :: "'a list list"
  end_logits :: "'a list list"

text \<open>
  \<^verbatim>\<open>model(input_ids_tensor, token_type_ids_tensor)\<close>: the pretrained network, a parameter
  as well. It receives two positional arguments and may raise.
\<close>

type_synonym 'a qa_model = "int list list \<Rightarrow> int list list \<Rightarrow> error + 'a qa_output"

subsection \<open>The notebook's cells\<close>

text \<open>
  Cells 7 to 12, up to the call of the model. Python rebinds \<^verbatim>\<open>input_ids\<close> in cell 10; the
  two bindings are \<open>input_ids'\<close> and \<open>input_ids''\<close> here.
  \<^verbatim>\<open>
  encoded_dict = tokenizer(question, answer_text)
  input_ids = encoded_dict['input_ids']
  token_type_ids = encoded_dict['token_type_ids']
  attention_mask = encoded_dict['attention_mask']
  input_ids = tokenizer.encode(question, answer_text)
  output = model(torch.LongTensor([input_ids]), torch.LongTensor([token_type_ids]))
  \<close>
  \<open>forward_args\<close> is the pair of tensors the model is called with.
\<close>

definition forward_args :: "tokenizer \<Rightarrow> string \<Rightarrow> string \<Rightarrow> int list list \<times> int list list" where
  "forward_args tok question answer_text =
     (let encoded_dict = tok_call tok question answer_text;
          input_ids' = input_ids encoded_dict;
          token_type_ids' = token_type_ids encoded_dict;
          attention_mask' = attention_mask encoded_dict;
          input_ids'' = tok_encode tok question answer_text
      in ([input_ids''], [token_type_ids']))"

text \<open>
  The last code cell: \<^verbatim>\<open>start_logits.argmax()\<close> and \<^verbatim>\<open>end_logits.argmax()\<close>, two reductions,
  one per tensor, and no statement that relates the two results.
\<close>

definition answer_extraction ::
  "'a::linorder list list \<Rightarrow> 'a list list \<Rightarrow> error + (nat \<times> nat)" where
  "answer_extraction start_logits' end_logits' =
     (case argmax start_logits' of
        Inl err \<Rightarrow> Inl err
      | Inr s \<Rightarrow>
          (case argmax end_logits' of
             Inl err \<Rightarrow> Inl err
           | Inr e \<Rightarrow> Inr (s, e)))"

text \<open>What the notebook prints, cell by cell.\<close>

record 'a report =
  n_input_ids :: nat
  id_token_lines :: "(int \<times> string) list"
  start_tensor :: "'a list list"
  start_max_value :: 'a
  start_max_position :: nat
  end_tensor :: "'a list list"
  end_max_value :: 'a
  end_max_position :: nat

text \<open>
  The whole run, in the order of the cells. The prints of the last cell evaluate
  \<^verbatim>\<open>start_logits.max()\<close>, \<^verbatim>\<open>start_logits.argmax()\<close>, \<^verbatim>\<open>end_logits.max()\<close> and
  \<^verbatim>\<open>end_logits.argmax()\<close> in this order.
\<close>

definition run_notebook ::
  "tokenizer \<Rightarrow> 'a::linorder qa_model \<Rightarrow> string \<Rightarrow> string \<Rightarrow> error + 'a report" where
  "run_notebook tok model question answer_text =
     (let input_ids'' = tok_encode tok question answer_text;
          tokens = tok_convert_ids_to_tokens tok input_ids''
      in case model (fst (forward_args tok question answer_text))
                    (snd (forward_args tok question answer_text)) of
           Inl err \<Rightarrow> Inl err
         | Inr output \<Rightarrow>
            (case tensor_max (start_logits output) of
               Inl err \<Rightarrow> Inl err
             | Inr smax \<Rightarrow>
            (case argmax (start_logits output) of
               Inl err \<Rightarrow> Inl err
             | Inr spos \<Rightarrow>
            (case tensor_max (end_logits output) of
               Inl err \<Rightarrow> Inl err
             | Inr emax \<Rightarrow>
            (case argmax (end_logits output) of
               Inl err \<Rightarrow> Inl err
             | Inr epos \<Rightarrow>
                 Inr \<lparr> n_input_ids = length input_ids'',
                       id_token_lines = zip input_ids'' tokens,
                       start_tensor = start_logits output,
                       start_max_value = smax,
                       start_max_position = spos,
                       end_tensor = end_logits output,
                       end_max_value = emax,
                       end_max_position = epos \<rparr>)))))"

subsection \<open>The recorded run\<close>

text \<open>The question and the context of cell 6.\<close>

definition sample_question :: string where
  "sample_question = ''How many parameters does BERT-large have?''"

definition sample_answer_text :: string where
  "sample_answer_text = ''BERT-large is really big... it has 24-layers and an embedding size of 1,024, for a total of 340M parameters! Altogether it is 1.34GB, so expect it to take a couple minutes to download to your Colab instance.''"

text \<open>
  The value of \<^verbatim>\<open>encoded_dict\<close> shown by cell 8: 70 ids; a segment mask of eleven 0s
  followed by fifty-nine 1s; an attention mask of seventy 1s. The two masks are written
  with \<open>replicate\<close>.
\<close>

definition sample_input_ids :: "int list" where
  "sample_input_ids =
    [101, 2129, 2116, 11709, 2515, 14324, 1011, 2312, 2031, 1029, 102, 14324, 1011,
     2312, 2003, 2428, 2502, 1012, 1012, 1012, 2009, 2038, 2484, 1011, 9014, 1998,
     2019, 7861, 8270, 4667, 2946, 1997, 1015, 1010, 6185, 2549, 1010, 2005, 1037,
     2561, 1997, 16029, 2213, 11709, 999, 10462, 2009, 2003, 1015, 1012, 4090, 18259,
     1010, 2061, 5987, 2009, 2000, 2202, 1037, 3232, 2781, 2000, 8816, 2000, 2115,
     15270, 2497, 6013, 1012, 102]"

definition sample_token_type_ids :: "int list" where
  "sample_token_type_ids = replicate 11 0 @ replicate 59 1"

definition sample_attention_mask :: "int list" where
  "sample_attention_mask = replicate 70 1"

definition sample_encoded_dict :: batch_encoding where
  "sample_encoded_dict =
     \<lparr> input_ids = sample_input_ids,
       token_type_ids = sample_token_type_ids,
       attention_mask = sample_attention_mask \<rparr>"

text \<open>The lines \<^verbatim>\<open>id >> token\<close> printed by cell 11.\<close>

definition sample_id_token_lines :: "(int \<times> string) list" where
  "sample_id_token_lines =
    [(101, ''[CLS]''), (2129, ''how''), (2116, ''many''), (11709, ''parameters''),
     (2515, ''does''), (14324, ''bert''), (1011, ''-''), (2312, ''large''),
     (2031, ''have''), (1029, ''?''), (102, ''[SEP]''), (14324, ''bert''),
     (1011, ''-''), (2312, ''large''), (2003, ''is''), (2428, ''really''),
     (2502, ''big''), (1012, ''.''), (1012, ''.''), (1012, ''.''), (2009, ''it''),
     (2038, ''has''), (2484, ''24''), (1011, ''-''), (9014, ''layers''),
     (1998, ''and''), (2019, ''an''), (7861, ''em''), (8270, ''##bed''),
     (4667, ''##ding''), (2946, ''size''), (1997, ''of''), (1015, ''1''),
     (1010, '',''), (6185, ''02''), (2549, ''##4''), (1010, '',''), (2005, ''for''),
     (1037, ''a''), (2561, ''total''), (1997, ''of''), (16029, ''340''),
     (2213, ''##m''), (11709, ''parameters''), (999, ''!''), (10462, ''altogether''),
     (2009, ''it''), (2003, ''is''), (1015, ''1''), (1012, ''.''), (4090, ''34''),
     (18259, ''##gb''), (1010, '',''), (2061, ''so''), (5987, ''expect''),
     (2009, ''it''), (2000, ''to''), (2202, ''take''), (1037, ''a''),
     (3232, ''couple''), (2781, ''minutes''), (2000, ''to''), (8816, ''download''),
     (2000, ''to''), (2115, ''your''), (15270, ''cola''), (2497, ''##b''),
     (6013, ''instance''), (1012, ''.''), (102, ''[SEP]'')]"

definition sample_tokens :: "string list" where
  "sample_tokens = map snd sample_id_token_lines"

text \<open>
  The two tensors printed by the last cell, of shape \<open>[1, 70]\<close>, as printed (four decimals),
  in units of \<open>10\<^sup>-\<^sup>4\<close>.
\<close>

definition sample_start_logits :: "int list list" where
  "sample_start_logits =
    [[3870, 3425, 2221, - 1389, - 598, 167, 2192, - 195, 358, 1572, 2594, 26, 3877,
     2388, - 2559, - 2483, - 1877, - 95, 1381, 192, - 996, - 1723, - 579, 4340, 2965,
     91, - 136, - 8, 2370, 1961, - 3182, - 174, - 215, - 2632, 3457, - 4221, 2370, 834,
     156, - 4788, - 394, - 963, 3294, - 429, 606, - 20, - 1711, - 3001, - 4400, - 3295,
     - 2250, - 2735, 2988, - 1878, - 589, - 34, - 199, - 3540, - 1299, - 4777, - 1572,
     - 1968, - 1163, 2619, - 1417, - 2043, - 156, - 2806, 3504, 2129]]"

definition sample_end_logits :: "int list list" where
  "sample_end_logits =
    [[2750, 3025, 1982, 2804, 134, 1392, - 3005, 1847, 2117, 1993, - 2266, - 302,
     - 1538, 314, - 2372, - 445, 2061, 1308, 390, 2574, 2415, - 1638, 1083, - 361, 451,
     - 1178, 372, - 3832, - 1898, 1761, 375, 554, 2993, - 798, - 2169, 2698, - 4066,
     2325, 1174, 3165, 3443, 3851, 1287, 2415, 2915, - 454, 534, - 2316, 370, - 2469,
     754, - 5071, - 3522, 1184, 84, 403, 1088, - 4221, - 1754, 2822, - 1701, 318, 644,
     2431, 3674, - 1204, 1616, 2142, - 2207, - 2640]]"

subsection \<open>The pair encoding of the tokenizer\<close>

text \<open>The ids of \<^verbatim>\<open>[CLS]\<close> and \<^verbatim>\<open>[SEP]\<close>, as cell 11 prints them.\<close>

definition CLS :: int where
  "CLS = 101"

definition SEP :: int where
  "SEP = 102"

text \<open>
  Modelled from the spec: the token sequence that the tokenizer returns for a pair. The
  tokenizer is a third-party library and its code is not in the repository. The spec's
  data model gives the sequence as \<^verbatim>\<open>[CLS] question_tokens [SEP] context_tokens [SEP]\<close>. The
  sub-word splitting of one text into vocabulary ids is the parameter \<open>wordpiece\<close>.
\<close>

definition encode_pair :: "(string \<Rightarrow> int list) \<Rightarrow> string \<Rightarrow> string \<Rightarrow> int list" where
  "encode_pair wordpiece question answer_text =
     [CLS] @ wordpiece question @ [SEP] @ wordpiece answer_text @ [SEP]"

text \<open>
  Modelled from the spec: the segment mask that the tokenizer returns for a pair, missing
  from the repository like the token sequence. The spec's data model gives it as a
  parallel sequence of markers: 0 for the question span including \<^verbatim>\<open>[CLS]\<close> and the first
  \<^verbatim>\<open>[SEP]\<close>, 1 for the context span including the trailing \<^verbatim>\<open>[SEP]\<close>.
\<close>

definition segment_mask :: "(string \<Rightarrow> int list) \<Rightarrow> string \<Rightarrow> string \<Rightarrow> int list" where
  "segment_mask wordpiece question answer_text =
     map (\<lambda>_. 0) ([CLS] @ wordpiece question @ [SEP])
     @ map (\<lambda>_. 1) (wordpiece answer_text @ [SEP])"

text \<open>The sub-word ids of the recorded run: positions 1 to 9 and 11 to 68 of the ids.\<close>

definition sample_wordpiece :: "string \<Rightarrow> int list" where
  "sample_wordpiece text =
     (if text = sample_question then take 9 (drop 1 sample_input_ids)
      else if text = sample_answer_text then take 58 (drop 11 sample_input_ids)
      else [])"

subsection \<open>Answer text\<close>

text \<open>
  Modelled from the spec: the rejoining of one token to the answer text built so far. The
  notebook stops at the two argmax positions and has no code that builds the answer text.
  The spec asks for WordPiece continuation fragments (tokens that begin with \<^verbatim>\<open>##\<close>) to
  be rejoined, that is appended to the token before them without the marker; the other
  tokens are separated by one space, as in the spec's expected text.
\<close>

definition join_token :: "string \<Rightarrow> string \<Rightarrow> string" where
  "join_token answer token =
     (if take 2 token = ''##'' then answer @ drop 2 token else answer @ '' '' @ token)"

text \<open>
  Modelled from the spec: the text of a span of tokens, absent from the notebook as well.
  The first token opens the text and the others are joined to it from left to right; a
  span without tokens has the empty text.
\<close>

definition rejoin :: "string list \<Rightarrow> string" where
  "rejoin span = (case span of [] \<Rightarrow> [] | t # ts \<Rightarrow> foldl join_token t ts)"

text \<open>
  Modelled from the spec: the answer text for a start and an end position, absent from
  the notebook as well. The spec describes it as the sub-sequence of tokens between start
  and end inclusive, rejoined. A span whose end precedes its start has no tokens.
\<close>

definition reconstruct :: "string list \<Rightarrow> nat \<Rightarrow> nat \<Rightarrow> string" where
  "reconstruct tokens s e = rejoin (take (Suc e - s) (drop s tokens))"

subsection \<open>Shapes and concrete inputs\<close>

text \<open>Two tensors have the same shape: as many rows, and rows of the same lengths.\<close>

definition same_shape :: "'a list list \<Rightarrow> 'b list list \<Rightarrow> bool" where
  "same_shape a b = (map length a = map length b)"

text \<open>A score sequence of length \<open>n\<close> whose only positive entry is at position \<open>k\<close>.\<close>

definition one_hot :: "nat \<Rightarrow> nat \<Rightarrow> int list" where
  "one_hot n k = (replicate n 0)[k := 1]"

text \<open>
  The tokenizer and the model that replay the recorded run: whatever they are given, they
  return the values the notebook shows.
\<close>

definition recorded_tokenizer :: tokenizer where
  "recorded_tokenizer =
     \<lparr> tok_call = (\<lambda>question answer_text. sample_encoded_dict),
       tok_encode = (\<lambda>question answer_text. map fst sample_id_token_lines),
       tok_convert_ids_to_tokens = (\<lambda>ids. sample_tokens) \<rparr>"

definition recorded_model :: "int qa_model" where
  "recorded_model ids segs =
     Inr \<lparr> start_logits = sample_start_logits, end_logits = sample_end_logits \<rparr>"

text \<open>
  A tokenizer that returns 513 ids for every pair, one more than the 512 positions of the
  model, and a model that accepts every input.
\<close>

definition long_tokenizer :: tokenizer where
  "long_tokenizer =
     \<lparr> tok_call = (\<lambda>question answer_text.
          \<lparr> input_ids = replicate 513 0,
            token_type_ids = replicate 513 0,
            attention_mask = replicate 513 1 \<rparr>),
       tok_encode = (\<lambda>question answer_text. replicate 513 0),
       tok_convert_ids_to_tokens = map (\<lambda>i. ''[PAD]'') \<rparr>"

definition lenient_model :: "int qa_model" where
  "lenient_model ids segs =
     Inr \<lparr> start_logits = map (map (\<lambda>i. 0)) ids, end_logits = map (map (\<lambda>i. 0)) ids \<rparr>"

text \<open>
  A tokenizer whose two entry points disagree: \<^verbatim>\<open>encode\<close> returns one id more than the
  \<^verbatim>\<open>input_ids\<close> of the call.
\<close>

definition split_tokenizer :: tokenizer where
  "split_tokenizer =
     \<lparr> tok_call = (\<lambda>question answer_text.
          \<lparr> input_ids = [CLS, SEP, SEP],
            token_type_ids = [0, 0, 1],
            attention_mask = [1, 1, 1] \<rparr>),
       tok_encode = (\<lambda>question answer_text. [CLS, SEP, SEP, SEP]),
       tok_convert_ids_to_tokens = map (\<lambda>i. ''[UNK]'') \<rparr>"

section \<open>Properties\<close>

subsection \<open>The scan returns the first position of the maximum\<close>

lemma argmax_scan_spec:
  assumes "best < length pre" and "pre ! best = m"
    and "\<forall>x \<in> set pre. x \<le> m" and "\<forall>j < best. pre ! j < m"
  shows "argmax_scan (length pre) best m xs < length (pre @ xs)
       \<and> (\<forall>x \<in> set (pre @ xs). x \<le> (pre @ xs) ! argmax_scan (length pre) best m xs)
       \<and> (\<forall>j < argmax_scan (length pre) best m xs.
             (pre @ xs) ! j < (pre @ xs) ! argmax_scan (length pre) best m xs)"
  using assms
proof (induction xs arbitrary: pre best m)
  case Nil
  then show ?case by simp
next
  case (Cons x xs)
  show ?case
  proof (cases "m < x")
    case True
    have a1: "length pre < length (pre @ [x])" by simp
    have a2: "(pre @ [x]) ! length pre = x" by simp
    have a3: "\<forall>y \<in> set (pre @ [x]). y \<le> x"
      using Cons.prems(3) True by auto
    have a4: "\<forall>j < length pre. (pre @ [x]) ! j < x"
      using Cons.prems(3) True by (auto simp: nth_append) (meson le_less_trans nth_mem)
    from Cons.IH [OF a1 a2 a3 a4] True show ?thesis by simp
  next
    case False
    have b1: "best < length (pre @ [x])" using Cons.prems(1) by simp
    have b2: "(pre @ [x]) ! best = m" using Cons.prems(1,2) by (simp add: nth_append)
    have b3: "\<forall>y \<in> set (pre @ [x]). y \<le> m" using Cons.prems(3) False by auto
    have b4: "\<forall>j < best. (pre @ [x]) ! j < m"
      using Cons.prems(1,4) by (simp add: nth_append)
    from Cons.IH [OF b1 b2 b3 b4] False show ?thesis by simp
  qed
qed

lemma argmax_row:
  assumes "xs \<noteq> []"
  shows "\<exists>i. argmax [xs] = Inr i \<and> i < length xs \<and> xs ! i = Max (set xs)
           \<and> (\<forall>j < i. xs ! j < xs ! i)"
proof -
  from assms obtain x rest where xs: "xs = x # rest" by (cases xs) auto
  let ?i = "argmax_scan (length [x]) 0 x rest"
  have spec: "?i < length ([x] @ rest)
       \<and> (\<forall>y \<in> set ([x] @ rest). y \<le> ([x] @ rest) ! ?i)
       \<and> (\<forall>j < ?i. ([x] @ rest) ! j < ([x] @ rest) ! ?i)"
    by (rule argmax_scan_spec) simp_all
  have am: "argmax [xs] = Inr ?i" by (simp add: argmax_def xs)
  have lt: "?i < length xs" using spec by (simp add: xs)
  have ub: "\<forall>y \<in> set xs. y \<le> xs ! ?i" using spec by (simp add: xs)
  have mx: "xs ! ?i = Max (set xs)"
  proof (rule sym, rule Max_eqI)
    show "finite (set xs)" by simp
    show "\<And>y. y \<in> set xs \<Longrightarrow> y \<le> xs ! ?i" using ub by blast
    show "xs ! ?i \<in> set xs" using lt by simp
  qed
  have first: "\<forall>j < ?i. xs ! j < xs ! ?i" using spec by (simp add: xs)
  from am lt mx first show ?thesis by blast
qed

subsection \<open>Reductions fail on tensors without elements, and only there\<close>

lemma argmax_empty: "concat t = [] \<Longrightarrow> argmax t = Inl EmptyTensor"
  by (simp add: argmax_def del: concat_eq_Nil_conv)

lemma tensor_max_empty: "concat t = [] \<Longrightarrow> tensor_max t = Inl EmptyTensor"
  by (simp add: tensor_max_def del: concat_eq_Nil_conv)

lemma argmax_nonempty: "concat t \<noteq> [] \<Longrightarrow> \<exists>i. argmax t = Inr i"
  by (cases "concat t") (simp_all add: argmax_def del: concat_eq_Nil_conv)

lemma tensor_max_nonempty: "concat t \<noteq> [] \<Longrightarrow> \<exists>v. tensor_max t = Inr v"
  by (cases "concat t") (simp_all add: tensor_max_def del: concat_eq_Nil_conv)

subsection \<open>One-hot scores\<close>

lemma argmax_one_hot:
  assumes "k < n"
  shows "argmax [one_hot n k] = Inr k"
proof -
  have ne: "one_hot n k \<noteq> []" using assms by (auto simp: one_hot_def)
  have len: "length (one_hot n k) = n" by (simp add: one_hot_def)
  have nth: "\<And>j. j < n \<Longrightarrow> one_hot n k ! j = (if j = k then 1 else 0)"
    using assms by (simp add: one_hot_def nth_list_update)
  from argmax_row [OF ne] obtain i where i: "argmax [one_hot n k] = Inr i" "i < n"
    and first: "\<forall>j < i. one_hot n k ! j < one_hot n k ! i"
    and mx: "one_hot n k ! i = Max (set (one_hot n k))"
    using len by auto
  have "one_hot n k ! k \<le> Max (set (one_hot n k))"
    using assms len by (intro Max_ge) (auto intro: nth_mem)
  then have "1 \<le> one_hot n k ! i" using mx nth [OF assms] by simp
  then have "i = k" using nth [OF i(2)] by (auto split: if_splits)
  with i show ?thesis by simp
qed

subsection \<open>The data flow of the cells\<close>

lemma forward_args_eq:
  "forward_args tok q c = ([tok_encode tok q c], [token_type_ids (tok_call tok q c)])"
  by (simp add: forward_args_def)

text \<open>
  The attention mask is bound by cell 9 and read by no later cell: replacing it changes
  nothing of what the model receives.
\<close>

lemma attention_mask_unused:
  "forward_args
     (tok\<lparr>tok_call := \<lambda>question answer_text.
        (tok_call tok question answer_text)\<lparr>attention_mask := am\<rparr>\<rparr>) q c
   = forward_args tok q c"
  by (simp add: forward_args_eq)

lemma run_notebook_error_iff:
  "run_notebook tok model q c = Inl err \<longleftrightarrow>
     model [tok_encode tok q c] [token_type_ids (tok_call tok q c)] = Inl err
     \<or> (\<exists>out. model [tok_encode tok q c] [token_type_ids (tok_call tok q c)] = Inr out
           \<and> err = EmptyTensor
           \<and> (concat (start_logits out) = [] \<or> concat (end_logits out) = []))"
proof (cases "model [tok_encode tok q c] [token_type_ids (tok_call tok q c)]")
  case (Inl e)
  then show ?thesis by (simp add: run_notebook_def forward_args_eq)
next
  case (Inr out)
  show ?thesis
  proof (cases "concat (start_logits out) = []")
    case True
    have "run_notebook tok model q c = Inl EmptyTensor"
      by (simp add: run_notebook_def forward_args_eq Inr tensor_max_empty [OF True])
    with Inr True show ?thesis by auto
  next
    case False
    from tensor_max_nonempty [OF False] obtain smax
      where smax: "tensor_max (start_logits out) = Inr smax" by blast
    from argmax_nonempty [OF False] obtain spos
      where spos: "argmax (start_logits out) = Inr spos" by blast
    show ?thesis
    proof (cases "concat (end_logits out) = []")
      case True
      have "run_notebook tok model q c = Inl EmptyTensor"
        by (simp add: run_notebook_def forward_args_eq Inr smax spos
            tensor_max_empty [OF True])
      with Inr True show ?thesis by auto
    next
      case nonempty: False
      from tensor_max_nonempty [OF nonempty] obtain emax
        where emax: "tensor_max (end_logits out) = Inr emax" by blast
      from argmax_nonempty [OF nonempty] obtain epos
        where epos: "argmax (end_logits out) = Inr epos" by blast
      have "\<exists>r. run_notebook tok model q c = Inr r"
        by (simp add: run_notebook_def Let_def forward_args_eq Inr smax spos emax epos)
      with Inr False nonempty show ?thesis by auto
    qed
  qed
qed

lemma run_notebook_n_input_ids:
  "run_notebook tok model q c = Inr r \<Longrightarrow> n_input_ids r = length (tok_encode tok q c)"
  by (auto simp: run_notebook_def Let_def split: sum.splits)

lemma run_notebook_positions:
  assumes "run_notebook tok model q c = Inr r"
  shows "\<exists>out. model [tok_encode tok q c] [token_type_ids (tok_call tok q c)] = Inr out
           \<and> answer_extraction (start_logits out) (end_logits out)
               = Inr (start_max_position r, end_max_position r)"
proof -
  from assms obtain out
    where out: "model [tok_encode tok q c] [token_type_ids (tok_call tok q c)] = Inr out"
    by (cases "model [tok_encode tok q c] [token_type_ids (tok_call tok q c)]")
      (auto simp: run_notebook_def forward_args_eq)
  from assms out
  have "answer_extraction (start_logits out) (end_logits out)
          = Inr (start_max_position r, end_max_position r)"
    by (auto simp: run_notebook_def Let_def forward_args_eq answer_extraction_def
        split: sum.splits)
  with out show ?thesis by blast
qed

subsection \<open>The recorded run\<close>

text \<open>
  The model of the cells reproduces what the notebook shows: 70 input ids, the printed
  lines, and the positions 23 and 41 of the two maxima.
\<close>

lemma recorded_ids_agree: "map fst sample_id_token_lines = sample_input_ids"
  by (simp add: sample_id_token_lines_def sample_input_ids_def)

lemma recorded_extraction:
  "answer_extraction sample_start_logits sample_end_logits = Inr (23, 41)"
  by (simp add: answer_extraction_def argmax_def sample_start_logits_def
      sample_end_logits_def)

lemma recorded_run:
  "run_notebook recorded_tokenizer recorded_model sample_question sample_answer_text =
     Inr \<lparr> n_input_ids = 70,
           id_token_lines = sample_id_token_lines,
           start_tensor = sample_start_logits,
           start_max_value = 4340,
           start_max_position = 23,
           end_tensor = sample_end_logits,
           end_max_value = 3851,
           end_max_position = 41 \<rparr>"
proof -
  have l: "length sample_id_token_lines = 70"
    by (simp add: sample_id_token_lines_def)
  have z: "zip (map fst sample_id_token_lines) sample_tokens = sample_id_token_lines"
    by (simp add: sample_tokens_def zip_map_fst_snd)
  have s1: "tensor_max sample_start_logits = Inr 4340"
    by (simp add: tensor_max_def sample_start_logits_def)
  have s2: "argmax sample_start_logits = Inr 23"
    by (simp add: argmax_def sample_start_logits_def)
  have e1: "tensor_max sample_end_logits = Inr 3851"
    by (simp add: tensor_max_def sample_end_logits_def)
  have e2: "argmax sample_end_logits = Inr 41"
    by (simp add: argmax_def sample_end_logits_def)
  show ?thesis
    by (simp add: run_notebook_def recorded_tokenizer_def recorded_model_def
        l z s1 s2 e1 e2)
qed

text \<open>
  The pair encoding reproduces the recorded ids and the recorded segment mask from the
  sub-word ids of the two texts; the recorded attention mask is all ones.
\<close>

lemma recorded_pair_encoding:
  "encode_pair sample_wordpiece sample_question sample_answer_text = sample_input_ids
   \<and> segment_mask sample_wordpiece sample_question sample_answer_text = sample_token_type_ids"
proof -
  have ne: "sample_answer_text \<noteq> sample_question"
    by (simp add: sample_answer_text_def sample_question_def)
  have q: "length (sample_wordpiece sample_question) = 9"
    by (simp add: sample_wordpiece_def sample_input_ids_def)
  have c: "length (sample_wordpiece sample_answer_text) = 58"
    by (simp add: sample_wordpiece_def ne sample_input_ids_def)
  have ids: "encode_pair sample_wordpiece sample_question sample_answer_text = sample_input_ids"
    by (simp add: encode_pair_def sample_wordpiece_def ne CLS_def SEP_def sample_input_ids_def)
  have "segment_mask sample_wordpiece sample_question sample_answer_text
          = replicate (Suc (Suc 9)) 0 @ replicate (Suc 58) 1"
    by (simp add: segment_mask_def map_replicate_const q c replicate_append_same)
  then have "segment_mask sample_wordpiece sample_question sample_answer_text
          = sample_token_type_ids"
    by (simp add: sample_token_type_ids_def)
  with ids show ?thesis by simp
qed

lemma recorded_attention_mask:
  "sample_attention_mask = replicate (length sample_input_ids) 1"
proof -
  have "length sample_input_ids = 70" by (simp add: sample_input_ids_def)
  then show ?thesis by (simp only: sample_attention_mask_def)
qed

subsection \<open>Answer extraction\<close>

text \<open>
  C1: answer extraction returns, for every pair of non-empty score sequences, the position
  of the maximum of the start scores and the position of the maximum of the end scores
  (the first such position when the maximum occurs more than once). Each position is the
  argmax of its own sequence alone, taken over the whole sequence, and nothing constrains
  the pair: every pair of positions below \<open>n\<close>, also one whose end precedes its start, is
  the result for some score sequences of length \<open>n\<close>.
\<close>

theorem answer_extraction_independent_argmax:
  "(sl \<noteq> [] \<and> el \<noteq> [] \<longrightarrow>
      (\<exists>s e. answer_extraction [sl] [el] = Inr (s, e)
         \<and> argmax [sl] = Inr s \<and> s < length sl \<and> sl ! s = Max (set sl)
         \<and> (\<forall>j < s. sl ! j < sl ! s)
         \<and> argmax [el] = Inr e \<and> e < length el \<and> el ! e = Max (set el)
         \<and> (\<forall>j < e. el ! j < el ! e)))
   \<and> (\<forall>n s e. s < n \<and> e < n \<longrightarrow>
         answer_extraction [one_hot n s] [one_hot n e] = Inr (s, e))"
proof (intro conjI impI allI)
  assume ne: "sl \<noteq> [] \<and> el \<noteq> []"
  from ne argmax_row [of sl] obtain s where s: "argmax [sl] = Inr s" "s < length sl"
    "sl ! s = Max (set sl)" "\<forall>j < s. sl ! j < sl ! s" by blast
  from ne argmax_row [of el] obtain e where e: "argmax [el] = Inr e" "e < length el"
    "el ! e = Max (set el)" "\<forall>j < e. el ! j < el ! e" by blast
  have "answer_extraction [sl] [el] = Inr (s, e)"
    by (simp add: answer_extraction_def s(1) e(1))
  with s e show "\<exists>s e. answer_extraction [sl] [el] = Inr (s, e)
         \<and> argmax [sl] = Inr s \<and> s < length sl \<and> sl ! s = Max (set sl)
         \<and> (\<forall>j < s. sl ! j < sl ! s)
         \<and> argmax [el] = Inr e \<and> e < length el \<and> el ! e = Max (set el)
         \<and> (\<forall>j < e. el ! j < el ! e)" by blast
next
  fix n s e :: nat
  assume "s < n \<and> e < n"
  then show "answer_extraction [one_hot n s] [one_hot n e] = Inr (s, e)"
    by (simp add: answer_extraction_def argmax_one_hot)
qed

text \<open>
  The theorem at two concrete score sequences, with a tie among the start scores, and at
  a pair of one-hot sequences whose end precedes the start.
\<close>

theorem answer_extraction_independent_argmax_witness:
  "[2, 7, 7, 1 :: int] \<noteq> [] \<and> [9, 3, 9 :: int] \<noteq> []
   \<and> answer_extraction [[2, 7, 7, 1 :: int]] [[9, 3, 9 :: int]] = Inr (1, 0)
   \<and> answer_extraction [one_hot 4 3] [one_hot 4 1] = Inr (3, 1)"
  using answer_extraction_independent_argmax [of "[2, 7, 7, 1 :: int]" "[9, 3, 9 :: int]"]
  by (simp add: answer_extraction_def argmax_def one_hot_def)

text \<open>
  C10: for every non-empty score sequence the argmax is defined and lies below the
  length of the sequence. The encoding of every pair holds at least \<^verbatim>\<open>[CLS]\<close> and the two
  \<^verbatim>\<open>[SEP]\<close>, so score sequences that are aligned with it are non-empty, and the two
  positions index tokens of the encoded sequence.
\<close>

theorem argmax_positions_index_tokens:
  "(xs \<noteq> [] \<longrightarrow> (\<exists>i. argmax [xs] = Inr i \<and> i < length xs))
   \<and> 3 \<le> length (encode_pair wordpiece q c)
   \<and> (length sl = length (encode_pair wordpiece q c)
        \<and> length el = length (encode_pair wordpiece q c) \<longrightarrow>
        (\<exists>s e. answer_extraction [sl] [el] = Inr (s, e)
            \<and> s < length (encode_pair wordpiece q c)
            \<and> e < length (encode_pair wordpiece q c)))"
proof (intro conjI impI)
  assume "xs \<noteq> []"
  from argmax_row [OF this] show "\<exists>i. argmax [xs] = Inr i \<and> i < length xs" by blast
next
  show "3 \<le> length (encode_pair wordpiece q c)" by (simp add: encode_pair_def)
next
  assume h: "length sl = length (encode_pair wordpiece q c)
        \<and> length el = length (encode_pair wordpiece q c)"
  have "0 < length (encode_pair wordpiece q c)" by (simp add: encode_pair_def)
  with h have ne: "sl \<noteq> []" "el \<noteq> []" by auto
  from argmax_row [OF ne(1)] obtain s where s: "argmax [sl] = Inr s" "s < length sl" by blast
  from argmax_row [OF ne(2)] obtain e where e: "argmax [el] = Inr e" "e < length el" by blast
  have "answer_extraction [sl] [el] = Inr (s, e)"
    by (simp add: answer_extraction_def s(1) e(1))
  with s(2) e(2) h
  show "\<exists>s e. answer_extraction [sl] [el] = Inr (s, e)
            \<and> s < length (encode_pair wordpiece q c)
            \<and> e < length (encode_pair wordpiece q c)" by auto
qed

text \<open>
  The theorem on the recorded run: 70 scores each for 70 encoded tokens.
\<close>

theorem argmax_positions_index_tokens_witness:
  "concat sample_start_logits \<noteq> []
   \<and> length (concat sample_start_logits)
       = length (encode_pair sample_wordpiece sample_question sample_answer_text)
   \<and> length (concat sample_end_logits)
       = length (encode_pair sample_wordpiece sample_question sample_answer_text)
   \<and> (\<exists>s e. answer_extraction [concat sample_start_logits] [concat sample_end_logits]
                = Inr (s, e)
          \<and> s < length (encode_pair sample_wordpiece sample_question sample_answer_text)
          \<and> e < length (encode_pair sample_wordpiece sample_question sample_answer_text))"
proof -
  have enc: "length (encode_pair sample_wordpiece sample_question sample_answer_text) = 70"
    using recorded_pair_encoding by (simp add: sample_input_ids_def)
  have sl: "length (concat sample_start_logits) = 70"
    by (simp add: sample_start_logits_def)
  have el: "length (concat sample_end_logits) = 70"
    by (simp add: sample_end_logits_def)
  have ne: "concat sample_start_logits \<noteq> []" by (simp add: sample_start_logits_def)
  from argmax_positions_index_tokens [of "concat sample_start_logits" sample_wordpiece sample_question
      sample_answer_text "concat sample_start_logits" "concat sample_end_logits"]
    enc sl el ne
  show ?thesis by simp
qed

text \<open>
  C3, as stated (a span whose end precedes its start is reported as an error), fails: for
  the start scores \<open>[0, 1]\<close> and the end scores \<open>[1, 0]\<close> the extraction returns the pair
  \<open>(1, 0)\<close>.
\<close>

theorem reversed_span_counterexample:
  "answer_extraction [[0, 1 :: int]] [[1, 0 :: int]] = Inr (1, 0)"
  by (simp add: answer_extraction_def argmax_def)

text \<open>
  C3, amended: when the end position is strictly less than the start position, answer
  extraction raises no error and returns the two positions as they are.
\<close>

theorem reversed_span_returned:
  "argmax sl = Inr s \<Longrightarrow> argmax el = Inr e \<Longrightarrow> e < s \<Longrightarrow>
     answer_extraction sl el = Inr (s, e)"
  by (simp add: answer_extraction_def)

text \<open>
  The amended theorem at concrete scores whose maxima are at positions 1 and 0.
\<close>

theorem reversed_span_returned_witness:
  "argmax [[3, 8, 5 :: int]] = Inr 1 \<and> argmax [[6, 2, 4 :: int]] = Inr 0 \<and> (0 :: nat) < 1
   \<and> answer_extraction [[3, 8, 5 :: int]] [[6, 2, 4 :: int]] = Inr (1, 0)"
proof -
  have s: "argmax [[3, 8, 5 :: int]] = Inr 1" by (simp add: argmax_def)
  have e: "argmax [[6, 2, 4 :: int]] = Inr 0" by (simp add: argmax_def)
  have lt: "(0 :: nat) < 1" by simp
  from s e lt reversed_span_returned [OF s e lt] show ?thesis by simp
qed

subsection \<open>The answer text of the recorded run\<close>

text \<open>
  C2, as stated, fails: the tokens from index 23 to 41 of the recorded run, rejoined, are
  not the text \<^verbatim>\<open>24 - layers and an embedding size of 1 , 024\<close>.
\<close>

theorem reconstruct_23_41_counterexample:
  "reconstruct sample_tokens 23 41 \<noteq> ''24 - layers and an embedding size of 1 , 024''"
  by (simp add: reconstruct_def rejoin_def join_token_def sample_tokens_def
      sample_id_token_lines_def)

text \<open>
  C2, amended: the tokens from index 23 to 41 inclusive, rejoined, are
  \<^verbatim>\<open>- layers and an embedding size of 1 , 024 , for a total of 340\<close>; the text
  \<^verbatim>\<open>24 - layers and an embedding size of 1 , 024\<close> is the span from index 22 to 35.
\<close>

theorem reconstruct_sample_spans:
  "reconstruct sample_tokens 23 41 =
     ''- layers and an embedding size of 1 , 024 , for a total of 340''
   \<and> reconstruct sample_tokens 22 35 = ''24 - layers and an embedding size of 1 , 024''"
  by (simp add: reconstruct_def rejoin_def join_token_def sample_tokens_def
      sample_id_token_lines_def)

subsection \<open>The segment mask\<close>

text \<open>
  C4: for every pair, the segment mask is as long as the token-id sequence and consists
  of one run of 0s from index 0, over \<^verbatim>\<open>[CLS]\<close>, the question tokens and the first
  \<^verbatim>\<open>[SEP]\<close>, followed by one run of 1s over the context tokens and the trailing \<^verbatim>\<open>[SEP]\<close>;
  neither run is empty and the two lengths add up to the length of the sequence.
\<close>

theorem segment_mask_two_runs:
  "length (segment_mask wordpiece q c) = length (encode_pair wordpiece q c)
   \<and> segment_mask wordpiece q c =
       replicate (length (wordpiece q) + 2) 0 @ replicate (length (wordpiece c) + 1) 1
   \<and> take (length (wordpiece q) + 2) (encode_pair wordpiece q c) = [CLS] @ wordpiece q @ [SEP]
   \<and> drop (length (wordpiece q) + 2) (encode_pair wordpiece q c) = wordpiece c @ [SEP]
   \<and> (length (wordpiece q) + 2) + (length (wordpiece c) + 1)
       = length (encode_pair wordpiece q c)"
  by (simp add: segment_mask_def encode_pair_def map_replicate_const replicate_append_same)

subsection \<open>No validation between tokenization and the forward pass\<close>

text \<open>
  C7: the ids that \<^verbatim>\<open>tokenizer.encode\<close> returns are what the model is called with,
  whatever their number. The run fails exactly when the model raises or a reduction meets
  a tensor without elements; no failure depends on the length of the encoded sequence. So
  with more than 512 ids the run still returns whenever the libraries do.
\<close>

theorem no_length_validation:
  "fst (forward_args tok q c) = [tok_encode tok q c]
   \<and> (run_notebook tok model q c = Inl err \<longleftrightarrow>
        model [tok_encode tok q c] [token_type_ids (tok_call tok q c)] = Inl err
        \<or> (\<exists>out. model [tok_encode tok q c] [token_type_ids (tok_call tok q c)] = Inr out
              \<and> err = EmptyTensor
              \<and> (concat (start_logits out) = [] \<or> concat (end_logits out) = [])))
   \<and> (512 < length (tok_encode tok q c)
        \<and> model [tok_encode tok q c] [token_type_ids (tok_call tok q c)] = Inr out
        \<and> concat (start_logits out) \<noteq> [] \<and> concat (end_logits out) \<noteq> [] \<longrightarrow>
        (\<exists>r. run_notebook tok model q c = Inr r
            \<and> n_input_ids r = length (tok_encode tok q c)))"
proof (intro conjI impI)
  show "fst (forward_args tok q c) = [tok_encode tok q c]"
    by (simp add: forward_args_eq)
  show "run_notebook tok model q c = Inl err \<longleftrightarrow>
        model [tok_encode tok q c] [token_type_ids (tok_call tok q c)] = Inl err
        \<or> (\<exists>out. model [tok_encode tok q c] [token_type_ids (tok_call tok q c)] = Inr out
              \<and> err = EmptyTensor
              \<and> (concat (start_logits out) = [] \<or> concat (end_logits out) = []))"
    by (rule run_notebook_error_iff)
next
  assume h: "512 < length (tok_encode tok q c)
        \<and> model [tok_encode tok q c] [token_type_ids (tok_call tok q c)] = Inr out
        \<and> concat (start_logits out) \<noteq> [] \<and> concat (end_logits out) \<noteq> []"
  have "\<And>e. run_notebook tok model q c \<noteq> Inl e"
    using h by (simp add: run_notebook_error_iff del: concat_eq_Nil_conv)
  then obtain r where r: "run_notebook tok model q c = Inr r"
    by (cases "run_notebook tok model q c") auto
  with run_notebook_n_input_ids [OF r]
  show "\<exists>r. run_notebook tok model q c = Inr r \<and> n_input_ids r = length (tok_encode tok q c)"
    by blast
qed

text \<open>
  The theorem at a tokenizer that returns 513 ids and a model that accepts them.
\<close>

theorem no_length_validation_witness:
  "512 < length (tok_encode long_tokenizer sample_question sample_answer_text)
   \<and> (\<exists>r. run_notebook long_tokenizer lenient_model sample_question sample_answer_text = Inr r
          \<and> n_input_ids r = 513)"
proof -
  let ?out = "\<lparr> start_logits = [replicate 513 (0::int)], end_logits = [replicate 513 0] \<rparr>"
  have len: "length (tok_encode long_tokenizer sample_question sample_answer_text) = 513"
    by (simp add: long_tokenizer_def)
  have h: "512 < length (tok_encode long_tokenizer sample_question sample_answer_text)
     \<and> lenient_model [tok_encode long_tokenizer sample_question sample_answer_text]
         [token_type_ids (tok_call long_tokenizer sample_question sample_answer_text)]
        = Inr ?out
     \<and> concat (start_logits ?out) \<noteq> [] \<and> concat (end_logits ?out) \<noteq> []"
    by (simp add: long_tokenizer_def lenient_model_def)
  from no_length_validation [of long_tokenizer sample_question sample_answer_text lenient_model EmptyTensor ?out]
    h len
  show ?thesis by simp
qed

subsection \<open>The two tokenizer entry points\<close>

text \<open>
  C8: the model is called with the ids of \<^verbatim>\<open>tokenizer.encode(question, answer_text)\<close>
  and the segment mask of the earlier \<^verbatim>\<open>tokenizer(question, answer_text)\<close>. When the two
  entry points return the same ids (and the ids and the mask of the call are parallel), the
  two tensors have the same shape. The shape depends on that agreement: for a tokenizer
  whose \<^verbatim>\<open>encode\<close> returns other ids than its call, the two tensors differ in shape.
\<close>

theorem forward_pairs_encode_with_call_mask:
  "forward_args tok q c = ([tok_encode tok q c], [token_type_ids (tok_call tok q c)])
   \<and> (tok_encode tok q c = input_ids (tok_call tok q c)
        \<and> length (input_ids (tok_call tok q c)) = length (token_type_ids (tok_call tok q c))
       \<longrightarrow> same_shape (fst (forward_args tok q c)) (snd (forward_args tok q c)))
   \<and> tok_encode split_tokenizer q c \<noteq> input_ids (tok_call split_tokenizer q c)
   \<and> length (input_ids (tok_call split_tokenizer q c))
       = length (token_type_ids (tok_call split_tokenizer q c))
   \<and> \<not> same_shape (fst (forward_args split_tokenizer q c))
                    (snd (forward_args split_tokenizer q c))"
  by (simp add: forward_args_eq same_shape_def split_tokenizer_def)

text \<open>
  The theorem on the recorded run, where the ids printed from \<^verbatim>\<open>tokenizer.encode\<close> are
  the \<^verbatim>\<open>input_ids\<close> of the recorded dictionary.
\<close>

theorem forward_pairs_encode_with_call_mask_witness:
  "tok_encode recorded_tokenizer sample_question sample_answer_text
     = input_ids (tok_call recorded_tokenizer sample_question sample_answer_text)
   \<and> length (input_ids (tok_call recorded_tokenizer sample_question sample_answer_text))
     = length (token_type_ids (tok_call recorded_tokenizer sample_question sample_answer_text))
   \<and> same_shape (fst (forward_args recorded_tokenizer sample_question sample_answer_text))
                 (snd (forward_args recorded_tokenizer sample_question sample_answer_text))"
proof -
  have inv: "tok_encode recorded_tokenizer sample_question sample_answer_text
     = input_ids (tok_call recorded_tokenizer sample_question sample_answer_text)"
    by (simp add: recorded_tokenizer_def sample_encoded_dict_def recorded_ids_agree)
  have par: "length (input_ids (tok_call recorded_tokenizer sample_question sample_answer_text))
     = length (token_type_ids (tok_call recorded_tokenizer sample_question sample_answer_text))"
    by (simp add: recorded_tokenizer_def sample_encoded_dict_def sample_input_ids_def
        sample_token_type_ids_def)
  from forward_pairs_encode_with_call_mask [of recorded_tokenizer sample_question sample_answer_text] inv par
  show ?thesis by blast
qed

end
